theory Spec2Isabelle
  imports Main "HOL-Library.Word"
begin

section \<open>C strings and the libc functions used by krunclient\<close>

text \<open>
  The program is \<^verbatim>\<open>nexushub/krunclient/main.c\<close>: one \<^verbatim>\<open>main\<close> function that
  talks to libc and to libkrun.

  A value of type \<^typ>\<open>string\<close> stands for the content of a C string, that is the bytes
  before its terminating NUL. An array of \<^verbatim>\<open>char *\<close> is a list of
  \<^typ>\<open>string option\<close>, \<^term>\<open>None\<close> being the null pointer, and a callee that is
  handed such an array reads it up to the first null pointer.

  libc is not part of the repository. The three functions below follow the C standard
  and POSIX: \<^verbatim>\<open>strncmp\<close> compares at most \<^verbatim>\<open>n\<close> characters and stops at
  a terminator, \<^verbatim>\<open>snprintf\<close> stores at most \<^verbatim>\<open>size - 1\<close> characters and then
  a terminator, \<^verbatim>\<open>strdup\<close> returns a fresh copy (the allocation is taken to
  succeed).
\<close>

type_synonym c_int = "32 word"

fun null_terminated :: "'a option list \<Rightarrow> 'a list" where
  "null_terminated [] = []"
| "null_terminated (None # ps) = []"
| "null_terminated (Some x # ps) = x # null_terminated ps"

fun strncmp :: "string \<Rightarrow> string \<Rightarrow> nat \<Rightarrow> int" where
  "strncmp s1 s2 0 = 0"
| "strncmp [] [] (Suc n) = 0"
| "strncmp [] (y # ys) (Suc n) = - of_char y"
| "strncmp (x # xs) [] (Suc n) = of_char x"
| "strncmp (x # xs) (y # ys) (Suc n) =
     (if x = y then strncmp xs ys n else of_char x - of_char y)"

definition strdup :: "string \<Rightarrow> string option" where
  "strdup s = Some s"

text \<open>
  \<^verbatim>\<open>snprintf(buf, size, ...)\<close> with \<^verbatim>\<open>0 < size\<close>: the string left in
  \<^verbatim>\<open>buf\<close>, given the fully formatted text. The bytes stored are the characters of
  that string and one terminator.
\<close>

definition snprintf :: "nat \<Rightarrow> string \<Rightarrow> string" where
  "snprintf n text = take (n - 1) text"

definition bytes_stored :: "string \<Rightarrow> nat" where
  "bytes_stored s = length s + 1"

text \<open>
  \<^verbatim>\<open>argv[i]\<close>: the C standard makes \<^verbatim>\<open>argv[argc]\<close> a null pointer. The
  conversion \<^verbatim>\<open>%s\<close> of a null pointer is rendered the way glibc does.
\<close>

definition argv_at :: "string list \<Rightarrow> nat \<Rightarrow> string option" where
  "argv_at argv i = (if i < length argv then Some (argv ! i) else None)"

fun fmt_s :: "string option \<Rightarrow> string" where
  "fmt_s None = ''(null)''"
| "fmt_s (Some s) = s"


section \<open>The libkrun interface\<close>

text \<open>
  libkrun is an external collaborator. A run of the program sees it as the values its
  functions return; \<^verbatim>\<open>krun_start_enter\<close> normally does not return
  (\<^term>\<open>None\<close>), the process then lives on as the virtual machine.
\<close>

record krun =
  krun_create_ctx :: c_int
  krun_set_vm_config :: "c_int \<Rightarrow> nat \<Rightarrow> nat \<Rightarrow> c_int"
  krun_set_root :: "c_int \<Rightarrow> string \<Rightarrow> c_int"
  krun_set_port_map :: "c_int \<Rightarrow> string list \<Rightarrow> c_int"
  krun_set_exec :: "c_int \<Rightarrow> string \<Rightarrow> string list option \<Rightarrow> string list \<Rightarrow> c_int"
  krun_start_enter :: "c_int \<Rightarrow> c_int option"

datatype krun_call =
  Create_ctx
| Set_vm_config c_int nat nat
| Set_root c_int string
| Set_port_map c_int "string list"
| Set_exec c_int string "string list option" "string list"
| Start_enter c_int

text \<open>libkrun reports failure as a negative return value.\<close>

definition krun_failed :: "c_int \<Rightarrow> bool" where
  "krun_failed r = (sint r < 0)"


section \<open>The program\<close>

datatype event =
  Printf string
| Fprintf_stderr string
| Call krun_call

record process =
  exit_status :: "c_int option"
  trace :: "event list"

fun krun_calls :: "event list \<Rightarrow> krun_call list" where
  "krun_calls [] = []"
| "krun_calls (Call c # t) = c # krun_calls t"
| "krun_calls (Printf s # t) = krun_calls t"
| "krun_calls (Fprintf_stderr s # t) = krun_calls t"

fun stderr_of :: "event list \<Rightarrow> string list" where
  "stderr_of [] = []"
| "stderr_of (Fprintf_stderr s # t) = s # stderr_of t"
| "stderr_of (Printf s # t) = stderr_of t"
| "stderr_of (Call c # t) = stderr_of t"

text \<open>Lines 24 to 33: the loop over \<^verbatim>\<open>environ\<close>, one array entry per step.\<close>

fun env_loop ::
  "string list \<Rightarrow> string option list \<times> event list \<Rightarrow> string option list \<times> event list"
where
  "env_loop [] st = st"
| "env_loop (e # es) (envp, out) =
     (let (envp1, out1) =
            (if strncmp e ''HOST='' 5 = 0
             then (envp[0 := strdup e],
                   out @ [Printf (''Setting HOST environment variable to '' @ drop 5 e
                                  @ [CHR 0x0A])])
             else (envp, out));
          (envp2, out2) =
            (if strncmp e ''INTERNAL_SECRET='' 16 = 0
             then (envp1[1 := strdup e],
                   out1 @ [Printf (''Setting INTERNAL_SECRET environment variable''
                                   @ [CHR 0x0A])])
             else (envp1, out1))
      in env_loop es (envp2, out2))"

definition envp_init :: "string option list" where
  "envp_init = [Some ''HOST='', Some ''INTERNAL_SECRET='', None]"

definition port_mapping_size :: nat where
  "port_mapping_size = 32"

definition port_mapping_of :: "string \<Rightarrow> string" where
  "port_mapping_of port = snprintf port_mapping_size (port @ '':80'')"

definition usage :: "string option \<Rightarrow> string" where
  "usage prog = ''Usage: '' @ fmt_s prog @ '' <root_path> <local_port>'' @ [CHR 0x0A]"

definition main :: "string list \<Rightarrow> string list \<Rightarrow> krun \<Rightarrow> process" where
  "main argv environ rt =
     (if length argv \<noteq> 3 then
        \<lparr>exit_status = Some 1, trace = [Fprintf_stderr (usage (argv_at argv 0))]\<rparr>
      else
        let port_mapping = port_mapping_of (argv ! 2);
            port_map = [Some port_mapping, None];
            (envp, out) = env_loop environ (envp_init, []);
            ctx_id = krun_create_ctx rt
        in \<lparr>exit_status =
              (case krun_start_enter rt ctx_id of None \<Rightarrow> None | Some r \<Rightarrow> Some 0),
            trace = out @
              [Call Create_ctx,
               Printf (''Initializing VM context...'' @ [CHR 0x0A]),
               Call (Set_vm_config ctx_id 1 512),
               Printf (''Setting VM root to '' @ argv ! 1 @ [CHR 0x0A]),
               Call (Set_root ctx_id (argv ! 1)),
               Printf (''Mapping TCP ports '' @ port_mapping @ [CHR 0x0A]),
               Call (Set_port_map ctx_id (null_terminated port_map)),
               Printf (''Executing /bin/app in VM...'' @ [CHR 0x0A]),
               Call (Set_exec ctx_id ''/bin/app'' None (null_terminated envp)),
               Call (Start_enter ctx_id)]\<rparr>)"

text \<open>
  The environment list that \<^verbatim>\<open>krun_set_exec\<close> reads from \<^verbatim>\<open>envp\<close> once the loop
  has run.
\<close>

definition guest_env :: "string list \<Rightarrow> string list" where
  "guest_env environ = null_terminated (fst (env_loop environ (envp_init, [])))"


section \<open>Observations on a run\<close>

text \<open>The environment lists handed to \<^verbatim>\<open>krun_set_exec\<close>, one per call.\<close>

fun exec_envs :: "krun_call list \<Rightarrow> string list list" where
  "exec_envs [] = []"
| "exec_envs (Set_exec ctx path args envp # cs) = envp # exec_envs cs"
| "exec_envs (c # cs) = exec_envs cs"

definition exec_env :: "string list \<Rightarrow> string list \<Rightarrow> krun \<Rightarrow> string list list" where
  "exec_env argv environ rt = exec_envs (krun_calls (trace (main argv environ rt)))"

text \<open>The calls made after the first \<^verbatim>\<open>krun_set_root\<close>.\<close>

fun after_set_root :: "krun_call list \<Rightarrow> krun_call list" where
  "after_set_root [] = []"
| "after_set_root (Set_root ctx path # cs) = cs"
| "after_set_root (c # cs) = after_set_root cs"

text \<open>The key of an environment entry is the text before its first \<^verbatim>\<open>=\<close>.\<close>

definition env_key :: "string \<Rightarrow> string" where
  "env_key e = takeWhile (\<lambda>c. c \<noteq> CHR ''='') e"

definition starts_with :: "string \<Rightarrow> string \<Rightarrow> bool" where
  "starts_with p e = (take (length p) e = p)"

text \<open>
  The host environment read as the specification reads it, a mapping from names to values
  in which the last of several entries for one name wins: \<open>last_entry p environ\<close> is the
  last entry that starts with \<open>p\<close>, and \<open>env_value name environ\<close> the value of the
  variable \<open>name\<close>, if there is one.
\<close>

fun last_entry :: "string \<Rightarrow> string list \<Rightarrow> string option" where
  "last_entry p [] = None"
| "last_entry p (e # es) =
     (case last_entry p es of
        Some e' \<Rightarrow> Some e'
      | None \<Rightarrow> if starts_with p e then Some e else None)"

definition env_value :: "string \<Rightarrow> string list \<Rightarrow> string option" where
  "env_value name environ =
     map_option (drop (length name + 1)) (last_entry (name @ ''='') environ)"

text \<open>
  Three behaviours of libkrun: every call succeeds and the machine is entered; the root
  is rejected with \<^verbatim>\<open>-EINVAL\<close> and so is the start; only the start fails.
\<close>

definition rt_ok :: krun where
  "rt_ok = \<lparr>krun_create_ctx = 0, krun_set_vm_config = (\<lambda>ctx vcpus ram. 0),
     krun_set_root = (\<lambda>ctx path. 0), krun_set_port_map = (\<lambda>ctx pm. 0),
     krun_set_exec = (\<lambda>ctx path args envp. 0), krun_start_enter = (\<lambda>ctx. None)\<rparr>"

definition rt_root_fails :: krun where
  "rt_root_fails = rt_ok\<lparr>krun_set_root := (\<lambda>ctx path. - 22),
     krun_start_enter := (\<lambda>ctx. Some (- 22))\<rparr>"

definition rt_start_fails :: krun where
  "rt_start_fails = rt_ok\<lparr>krun_start_enter := (\<lambda>ctx. Some (- 22))\<rparr>"


section \<open>Facts about the libc functions and the loop\<close>

lemma of_char_int_eq_0: "(of_char c :: int) = 0 \<longleftrightarrow> c = CHR 0x00"
  using of_char_eq_iff [of c "CHR 0x00", where ?'a = int] by simp

lemma strncmp_eq_0_iff:
  "n \<le> length s2 \<Longrightarrow> CHR 0x00 \<notin> set s2 \<Longrightarrow> strncmp s1 s2 n = 0 \<longleftrightarrow> take n s1 = take n s2"
proof (induction s1 s2 n rule: strncmp.induct)
  case (3 y ys n)
  then show ?case by (auto simp: of_char_int_eq_0)
next
  case (5 x xs y ys n)
  then show ?case by auto
qed auto

lemma strncmp_HOST: "strncmp e ''HOST='' 5 = 0 \<longleftrightarrow> starts_with ''HOST='' e"
  using strncmp_eq_0_iff [of 5 "''HOST=''" e] by (simp add: starts_with_def eval_nat_numeral)

lemma strncmp_INTERNAL_SECRET:
  "strncmp e ''INTERNAL_SECRET='' 16 = 0 \<longleftrightarrow> starts_with ''INTERNAL_SECRET='' e"
  using strncmp_eq_0_iff [of 16 "''INTERNAL_SECRET=''" e] by (simp add: starts_with_def eval_nat_numeral)

lemma env_loop_fst:
  "fst (env_loop es ([a, b, c], out)) =
     [case last_entry ''HOST='' es of None \<Rightarrow> a | Some e \<Rightarrow> Some e,
      case last_entry ''INTERNAL_SECRET='' es of None \<Rightarrow> b | Some e \<Rightarrow> Some e,
      c]"
proof (induction es arbitrary: a b out)
  case Nil
  show ?case by simp
next
  case (Cons e es)
  show ?case
    by (simp add: Cons.IH strncmp_HOST strncmp_INTERNAL_SECRET strdup_def
        split: option.split)
qed

lemma krun_calls_append: "krun_calls (t @ u) = krun_calls t @ krun_calls u"
  by (induction t rule: krun_calls.induct) simp_all

lemma env_loop_calls:
  "krun_calls (snd (env_loop es (envp, out))) = krun_calls out"
  by (induction es arbitrary: envp out) (simp_all add: krun_calls_append)


lemma last_entry_starts_with: "last_entry p es = Some e \<Longrightarrow> starts_with p e"
  by (induction es) (auto split: option.splits if_splits)

lemma starts_with_append: "starts_with p (p @ v)"
  by (simp add: starts_with_def)

lemma starts_with_decomp: "starts_with p e \<Longrightarrow> e = p @ drop (length p) e"
  by (metis append_take_drop_id starts_with_def)

lemma last_entry_None_iff:
  "last_entry p es = None \<longleftrightarrow> (\<forall>e\<in>set es. \<not> starts_with p e)"
  by (induction es) (auto split: option.splits)

lemma last_entry_last:
  "\<forall>x\<in>set post. \<not> starts_with p x \<Longrightarrow> starts_with p e \<Longrightarrow>
     last_entry p (pre @ e # post) = Some e"
  by (induction pre) (auto simp: last_entry_None_iff [symmetric])

lemma env_value_None_iff:
  "env_value k es = None \<longleftrightarrow> (\<forall>e\<in>set es. \<not> starts_with (k @ ''='') e)"
  by (simp add: env_value_def last_entry_None_iff)

lemma env_value_last:
  "\<forall>x\<in>set post. \<not> starts_with (k @ ''='') x \<Longrightarrow>
     env_value k (pre @ (k @ ''='' @ v) # post) = Some v"
  using last_entry_last [of post "k @ ''=''" "k @ ''='' @ v" pre]
  by (simp add: env_value_def starts_with_def)

lemma guest_env_eq:
  "guest_env environ =
     [''HOST='' @ (case env_value ''HOST'' environ of None \<Rightarrow> [] | Some v \<Rightarrow> v),
      ''INTERNAL_SECRET='' @
        (case env_value ''INTERNAL_SECRET'' environ of None \<Rightarrow> [] | Some v \<Rightarrow> v)]"
proof -
  have h: "(case last_entry ''HOST='' environ of None \<Rightarrow> ''HOST='' | Some e \<Rightarrow> e) =
      ''HOST='' @ (case env_value ''HOST'' environ of None \<Rightarrow> [] | Some v \<Rightarrow> v)"
    using starts_with_decomp [OF last_entry_starts_with, of "''HOST=''" environ]
    by (simp add: env_value_def split: option.split)
  have s: "(case last_entry ''INTERNAL_SECRET='' environ of
              None \<Rightarrow> ''INTERNAL_SECRET='' | Some e \<Rightarrow> e) =
      ''INTERNAL_SECRET='' @
        (case env_value ''INTERNAL_SECRET'' environ of None \<Rightarrow> [] | Some v \<Rightarrow> v)"
    using starts_with_decomp [OF last_entry_starts_with, of "''INTERNAL_SECRET=''" environ]
    by (simp add: env_value_def split: option.split)
  have "guest_env environ =
      [case last_entry ''HOST='' environ of None \<Rightarrow> ''HOST='' | Some e \<Rightarrow> e,
       case last_entry ''INTERNAL_SECRET='' environ of
         None \<Rightarrow> ''INTERNAL_SECRET='' | Some e \<Rightarrow> e]"
    by (simp add: guest_env_def envp_init_def env_loop_fst split: option.split)
  with h s show ?thesis by simp
qed

lemma main_calls:
  "krun_calls (trace (main [prog, root, port] environ rt)) =
     [Create_ctx,
      Set_vm_config (krun_create_ctx rt) 1 512,
      Set_root (krun_create_ctx rt) root,
      Set_port_map (krun_create_ctx rt) [port_mapping_of port],
      Set_exec (krun_create_ctx rt) ''/bin/app'' None (guest_env environ),
      Start_enter (krun_create_ctx rt)]"
proof -
  obtain envp out where l: "env_loop environ (envp_init, []) = (envp, out)"
    by (cases "env_loop environ (envp_init, [])")
  have "krun_calls out = []"
    using env_loop_calls [of environ envp_init "[]"] l by simp
  with l show ?thesis
    by (simp add: main_def Let_def krun_calls_append guest_env_def)
qed

lemma main_usage:
  "length argv \<noteq> 3 \<Longrightarrow>
     main argv environ rt =
       \<lparr>exit_status = Some 1, trace = [Fprintf_stderr (usage (argv_at argv 0))]\<rparr>"
  by (simp add: main_def)

lemma main_exit_status:
  "exit_status (main [prog, root, port] environ rt) =
     (case krun_start_enter rt (krun_create_ctx rt) of None \<Rightarrow> None | Some r \<Rightarrow> Some 0)"
  by (simp add: main_def Let_def split: prod.split)

lemma exec_env_eq: "exec_env [prog, root, port] environ rt = [guest_env environ]"
  by (simp add: exec_env_def main_calls)

lemma exec_env_usage: "length argv \<noteq> 3 \<Longrightarrow> exec_env argv environ rt = []"
  by (simp add: exec_env_def main_usage)

lemma length_3_cases: "length argv = 3 \<Longrightarrow> \<exists>a b c. argv = [a, b, c]"
  by (cases argv; simp) (metis (no_types) Suc_length_conv length_0_conv numeral_2_eq_2)

lemma env_key_HOST: "env_key (''HOST='' @ v) = ''HOST''"
  by (simp add: env_key_def)

lemma env_key_INTERNAL_SECRET: "env_key (''INTERNAL_SECRET='' @ v) = ''INTERNAL_SECRET''"
  by (simp add: env_key_def)

section \<open>The allow-listed guest environment\<close>

text \<open>
  Claim C1. Whatever the arguments, the host environment and the behaviour of libkrun,
  every entry of every environment list handed to \<^verbatim>\<open>krun_set_exec\<close> has the key
  \<^verbatim>\<open>HOST\<close> or the key \<^verbatim>\<open>INTERNAL_SECRET\<close>: no other host variable, such as
  \<^verbatim>\<open>PATH\<close>, reaches the guest.
\<close>

theorem guest_env_allow_listed:
  "\<forall>envp\<in>set (exec_env argv environ rt). \<forall>e\<in>set envp.
     env_key e = ''HOST'' \<or> env_key e = ''INTERNAL_SECRET''"
proof (cases "length argv = 3")
  case True
  then obtain prog root port where "argv = [prog, root, port]"
    using length_3_cases by blast
  then show ?thesis
    using env_key_HOST env_key_INTERNAL_SECRET
    by (simp add: exec_env_eq guest_env_eq del: append.simps)
next
  case False
  then show ?thesis by (simp add: exec_env_usage)
qed

theorem guest_env_allow_listed_witness:
  "exec_env [''krunclient'', ''/var/vm-root'', ''8080'']
     [''PATH=/usr/bin'', ''HOST=1.2.3.4'', ''HOME=/root''] rt_ok =
     [[''HOST=1.2.3.4'', ''INTERNAL_SECRET='']]
   \<and> env_key ''HOST=1.2.3.4'' = ''HOST''
   \<and> env_key ''INTERNAL_SECRET='' = ''INTERNAL_SECRET''"
proof -
  let ?E = "[''PATH=/usr/bin'', ''HOST=1.2.3.4'', ''HOME=/root'']"
  have run: "exec_env [''krunclient'', ''/var/vm-root'', ''8080''] ?E rt_ok =
      [[''HOST=1.2.3.4'', ''INTERNAL_SECRET='']]"
    by (simp add: exec_env_eq guest_env_eq env_value_def starts_with_def)
  from guest_env_allow_listed [of "[''krunclient'', ''/var/vm-root'', ''8080'']" ?E rt_ok] run
  show ?thesis by (simp add: env_key_def)
qed

text \<open>
  Claim C10. The array \<^verbatim>\<open>envp\<close> holds two entries and the terminating null pointer
  after the loop, so the list handed to \<^verbatim>\<open>krun_set_exec\<close> has exactly two entries:
  first the \<^verbatim>\<open>HOST\<close> entry, then the \<^verbatim>\<open>INTERNAL_SECRET\<close> entry. Each carries
  the value of the host variable, and the empty value when the host environment has no
  such variable.
\<close>

theorem guest_env_two_entries:
  "fst (env_loop environ (envp_init, [])) =
     [Some (''HOST='' @ (case env_value ''HOST'' environ of None \<Rightarrow> [] | Some v \<Rightarrow> v)),
      Some (''INTERNAL_SECRET='' @
        (case env_value ''INTERNAL_SECRET'' environ of None \<Rightarrow> [] | Some v \<Rightarrow> v)),
      None]
   \<and> exec_env [prog, root_path, local_port] environ rt =
       [[''HOST='' @ (case env_value ''HOST'' environ of None \<Rightarrow> [] | Some v \<Rightarrow> v),
         ''INTERNAL_SECRET='' @
           (case env_value ''INTERNAL_SECRET'' environ of None \<Rightarrow> [] | Some v \<Rightarrow> v)]]"
proof -
  obtain a b where ab: "fst (env_loop environ (envp_init, [])) = [a, b, None]"
    by (simp add: envp_init_def env_loop_fst)
  have "null_terminated [a, b, None] = guest_env environ"
    using ab by (simp add: guest_env_def)
  then have "a = Some (hd (guest_env environ)) \<and> b = Some (hd (tl (guest_env environ)))"
    by (cases a; cases b) (simp_all add: guest_env_eq)
  with ab show ?thesis
    by (simp add: exec_env_eq guest_env_eq)
qed

text \<open>
  Claim C7. When the last \<^verbatim>\<open>HOST\<close> entry of the host environment has the value
  \<open>h\<close> and the last \<^verbatim>\<open>INTERNAL_SECRET\<close> entry the value \<open>s\<close>, whatever entries
  for the same names come before them, the environment handed to \<^verbatim>\<open>krun_set_exec\<close>
  has exactly two entries and they are \<^verbatim>\<open>HOST=h\<close> and \<^verbatim>\<open>INTERNAL_SECRET=s\<close>.
  The claim's instance is \<open>h = 1.2.3.4\<close>, \<open>s = xyz\<close>.
\<close>

theorem both_present_last_wins:
  assumes "environ = pre1 @ (''HOST='' @ h) # post1"
    and "\<forall>e\<in>set post1. \<not> starts_with ''HOST='' e"
    and "environ = pre2 @ (''INTERNAL_SECRET='' @ s) # post2"
    and "\<forall>e\<in>set post2. \<not> starts_with ''INTERNAL_SECRET='' e"
  shows "\<exists>envp. exec_env [prog, root_path, local_port] environ rt = [envp]
           \<and> length envp = 2
           \<and> set envp = {''HOST='' @ h, ''INTERNAL_SECRET='' @ s}"
proof -
  have "env_value ''HOST'' environ = Some h"
    using env_value_last [of post1 "''HOST''" pre1 h] assms(1,2) by simp
  moreover have "env_value ''INTERNAL_SECRET'' environ = Some s"
    using env_value_last [of post2 "''INTERNAL_SECRET''" pre2 s] assms(3,4) by simp
  ultimately show ?thesis
    by (simp add: exec_env_eq guest_env_eq del: append.simps)
qed

theorem both_present_last_wins_witness:
  "\<exists>envp. exec_env [''krunclient'', ''/var/vm-root'', ''8080'']
       [''HOST=9.9.9.9'', ''INTERNAL_SECRET=xyz'', ''PATH=/usr/bin'', ''HOST=1.2.3.4''] rt_ok =
       [envp]
     \<and> length envp = 2
     \<and> set envp = {''HOST=1.2.3.4'', ''INTERNAL_SECRET=xyz''}"
proof -
  let ?E = "[''HOST=9.9.9.9'', ''INTERNAL_SECRET=xyz'', ''PATH=/usr/bin'', ''HOST=1.2.3.4'']"
  have a: "?E = [''HOST=9.9.9.9'', ''INTERNAL_SECRET=xyz'', ''PATH=/usr/bin'']
      @ (''HOST='' @ ''1.2.3.4'') # []"
    by simp
  have b: "\<forall>e\<in>set []. \<not> starts_with ''HOST='' e"
    by simp
  have c: "?E = [''HOST=9.9.9.9''] @ (''INTERNAL_SECRET='' @ ''xyz'')
      # [''PATH=/usr/bin'', ''HOST=1.2.3.4'']"
    by simp
  have d: "\<forall>e\<in>set [''PATH=/usr/bin'', ''HOST=1.2.3.4'']. \<not> starts_with ''INTERNAL_SECRET='' e"
    by (simp add: starts_with_def)
  from both_present_last_wins [OF a b c d, of "''krunclient''" "''/var/vm-root''" "''8080''" rt_ok]
  show ?thesis by simp
qed

text \<open>
  Claim C4, as stated, asks for a single entry when the host environment sets
  \<^verbatim>\<open>HOST=1.2.3.4\<close> and has no \<^verbatim>\<open>INTERNAL_SECRET\<close>. The array \<^verbatim>\<open>envp\<close> is
  initialised with \<^verbatim>\<open>"HOST="\<close> and \<^verbatim>\<open>"INTERNAL_SECRET="\<close> and the loop only
  overwrites a slot, so the run below hands over two entries.
\<close>

theorem host_only_single_entry_counterexample:
  "env_value ''HOST'' [''PATH=/usr/bin'', ''HOST=1.2.3.4''] = Some ''1.2.3.4''
   \<and> env_value ''INTERNAL_SECRET'' [''PATH=/usr/bin'', ''HOST=1.2.3.4''] = None
   \<and> exec_env [''krunclient'', ''/var/vm-root'', ''8080'']
        [''PATH=/usr/bin'', ''HOST=1.2.3.4''] rt_ok =
       [[''HOST=1.2.3.4'', ''INTERNAL_SECRET='']]
   \<and> exec_env [''krunclient'', ''/var/vm-root'', ''8080'']
        [''PATH=/usr/bin'', ''HOST=1.2.3.4''] rt_ok \<noteq> [[''HOST=1.2.3.4'']]"
  by (simp add: exec_env_eq guest_env_eq env_value_def starts_with_def)

text \<open>
  Claim C4, amended. For every host environment whose last \<^verbatim>\<open>HOST\<close> entry is
  \<^verbatim>\<open>HOST=1.2.3.4\<close> and that has no \<^verbatim>\<open>INTERNAL_SECRET\<close> entry, the environment
  handed to \<^verbatim>\<open>krun_set_exec\<close> has exactly two entries: \<^verbatim>\<open>HOST=1.2.3.4\<close>
  followed by the empty-valued \<^verbatim>\<open>INTERNAL_SECRET=\<close>.
\<close>

theorem host_only_two_entries:
  assumes "environ = pre @ ''HOST=1.2.3.4'' # post"
    and "\<forall>e\<in>set post. \<not> starts_with ''HOST='' e"
    and "\<forall>e\<in>set environ. \<not> starts_with ''INTERNAL_SECRET='' e"
  shows "exec_env [prog, root_path, local_port] environ rt =
           [[''HOST=1.2.3.4'', ''INTERNAL_SECRET='']]"
proof -
  have "env_value ''HOST'' environ = Some ''1.2.3.4''"
    using env_value_last [of post "''HOST''" pre "''1.2.3.4''"] assms(1,2) by simp
  moreover have "env_value ''INTERNAL_SECRET'' environ = None"
    using env_value_None_iff [of "''INTERNAL_SECRET''" environ] assms(3) by simp
  ultimately show ?thesis
    by (simp add: exec_env_eq guest_env_eq)
qed

theorem host_only_two_entries_witness:
  "exec_env [''krunclient'', ''/var/vm-root'', ''8080'']
     ([''HOST=9.9.9.9'', ''PATH=/usr/bin''] @ ''HOST=1.2.3.4'' # [''HOME=/root'']) rt_ok =
     [[''HOST=1.2.3.4'', ''INTERNAL_SECRET='']]"
proof -
  let ?E = "[''HOST=9.9.9.9'', ''PATH=/usr/bin''] @ ''HOST=1.2.3.4'' # [''HOME=/root'']"
  have a: "?E = [''HOST=9.9.9.9'', ''PATH=/usr/bin''] @ ''HOST=1.2.3.4'' # [''HOME=/root'']"
    by simp
  have b: "\<forall>e\<in>set [''HOME=/root'']. \<not> starts_with ''HOST='' e"
    by (simp add: starts_with_def)
  have c: "\<forall>e\<in>set ?E. \<not> starts_with ''INTERNAL_SECRET='' e"
    by (simp add: starts_with_def)
  show ?thesis
    by (rule host_only_two_entries [OF a b c])
qed

section \<open>The port mapping\<close>

text \<open>
  Claim C8. When the port text followed by \<^verbatim>\<open>:80\<close> and a terminator fits the 32
  bytes of \<^verbatim>\<open>port_mapping\<close>, the derived string is the port text followed by
  \<^verbatim>\<open>:80\<close>; for the port \<^verbatim>\<open>8080\<close> it is \<^verbatim>\<open>8080:80\<close>.
\<close>

theorem port_mapping_fits:
  "(bytes_stored (port @ '':80'') \<le> port_mapping_size \<longrightarrow>
      port_mapping_of port = port @ '':80'')
   \<and> port_mapping_of ''8080'' = ''8080:80''"
  by (simp add: port_mapping_of_def snprintf_def bytes_stored_def port_mapping_size_def)

theorem port_mapping_fits_witness:
  "bytes_stored (''65535'' @ '':80'') \<le> port_mapping_size
   \<and> port_mapping_of ''65535'' = ''65535:80''"
proof -
  have h: "bytes_stored (''65535'' @ '':80'') \<le> port_mapping_size"
    by (simp add: bytes_stored_def port_mapping_size_def)
  from h port_mapping_fits [of "''65535''"] show ?thesis by simp
qed

text \<open>
  Claim C9. For every port text, however long, the derived string is the first 31
  characters of the port text followed by \<^verbatim>\<open>:80\<close>, and with its terminator it
  occupies no more than the 32 bytes of \<^verbatim>\<open>port_mapping\<close>.
\<close>

theorem port_mapping_truncates:
  "port_mapping_of port = take 31 (port @ '':80'')
   \<and> length (port_mapping_of port) \<le> 31
   \<and> bytes_stored (port_mapping_of port) \<le> port_mapping_size"
  by (simp add: port_mapping_of_def snprintf_def bytes_stored_def port_mapping_size_def)

section \<open>The sequence of runtime calls and the exit status\<close>

text \<open>
  Claim C2. On every run with exactly two positional arguments the calls into libkrun
  are, once each and in this order: create the context, set 1 vCPU and 512 MiB, set the
  root to the first argument, set the one-entry port map, set the executable
  \<^verbatim>\<open>/bin/app\<close> with a null argument array, start.
\<close>

theorem runtime_calls_in_order:
  "krun_calls (trace (main [prog, root_path, local_port] environ rt)) =
     [Create_ctx,
      Set_vm_config (krun_create_ctx rt) 1 512,
      Set_root (krun_create_ctx rt) root_path,
      Set_port_map (krun_create_ctx rt) [port_mapping_of local_port],
      Set_exec (krun_create_ctx rt) ''/bin/app'' None (guest_env environ),
      Start_enter (krun_create_ctx rt)]"
  by (rule main_calls)

text \<open>
  Claim C5. When the number of arguments after the program name is not two, the program
  writes the usage line to the error stream, returns 1 and makes no call into libkrun.
\<close>

theorem wrong_arity_usage:
  "length args \<noteq> 2 \<Longrightarrow>
     stderr_of (trace (main (prog # args) environ rt)) =
       [''Usage: '' @ prog @ '' <root_path> <local_port>'' @ [CHR 0x0A]]
     \<and> exit_status (main (prog # args) environ rt) = Some 1
     \<and> krun_calls (trace (main (prog # args) environ rt)) = []"
  by (simp add: main_usage usage_def argv_at_def)

theorem wrong_arity_usage_witness:
  "length [''/var/vm-root''] \<noteq> 2
   \<and> stderr_of (trace (main [''krunclient'', ''/var/vm-root''] [''HOST=10.0.0.5''] rt_ok)) =
       [''Usage: krunclient <root_path> <local_port>'' @ [CHR 0x0A]]
   \<and> exit_status (main [''krunclient'', ''/var/vm-root''] [''HOST=10.0.0.5''] rt_ok) = Some 1
   \<and> krun_calls (trace (main [''krunclient'', ''/var/vm-root''] [''HOST=10.0.0.5''] rt_ok)) = []"
proof -
  have h: "length [''/var/vm-root''] \<noteq> 2" by simp
  from h wrong_arity_usage [OF h, of "''krunclient''" "[''HOST=10.0.0.5'']" rt_ok]
  show ?thesis by simp
qed

text \<open>
  Claim C3, as stated, asks that a failing \<^verbatim>\<open>krun_set_root\<close> stops the pipeline
  with a non-zero exit status. No return value of a configuration call is inspected in
  \<^verbatim>\<open>main\<close>: in the run below the root is rejected, the three later calls are made
  all the same and the program returns 0.
\<close>

theorem set_root_failure_aborts_counterexample:
  "krun_failed (krun_set_root rt_root_fails (krun_create_ctx rt_root_fails) ''/var/vm-root'')
   \<and> after_set_root
         (krun_calls (trace (main [''krunclient'', ''/var/vm-root'', ''80''] [] rt_root_fails))) =
       [Set_port_map 0 [''80:80''],
        Set_exec 0 ''/bin/app'' None [''HOST='', ''INTERNAL_SECRET=''],
        Start_enter 0]
   \<and> exit_status (main [''krunclient'', ''/var/vm-root'', ''80''] [] rt_root_fails) = Some 0"
  by (simp add: main_calls main_exit_status guest_env_eq env_value_def port_mapping_of_def
      port_mapping_size_def snprintf_def rt_root_fails_def rt_ok_def krun_failed_def)

text \<open>
  Claim C3, amended. On every run with two positional arguments in which
  \<^verbatim>\<open>krun_set_root\<close> fails, the return value is not inspected: the calls that set the
  port map, set the executable and start the machine follow, once each and in this
  order, and when the start call returns the exit status is 0.
\<close>

theorem set_root_failure_ignored:
  "krun_failed (krun_set_root rt (krun_create_ctx rt) root_path) \<Longrightarrow>
     after_set_root (krun_calls (trace (main [prog, root_path, local_port] environ rt))) =
       [Set_port_map (krun_create_ctx rt) [port_mapping_of local_port],
        Set_exec (krun_create_ctx rt) ''/bin/app'' None (guest_env environ),
        Start_enter (krun_create_ctx rt)]
     \<and> exit_status (main [prog, root_path, local_port] environ rt) =
         (case krun_start_enter rt (krun_create_ctx rt) of None \<Rightarrow> None | Some r \<Rightarrow> Some 0)"
  by (simp add: main_calls main_exit_status)

theorem set_root_failure_ignored_witness:
  "krun_failed (krun_set_root rt_root_fails (krun_create_ctx rt_root_fails) ''/no/such/root'')
   \<and> after_set_root
         (krun_calls
           (trace (main [''krunclient'', ''/no/such/root'', ''8080''] [''HOST=10.0.0.5'']
              rt_root_fails))) =
       [Set_port_map 0 [''8080:80''],
        Set_exec 0 ''/bin/app'' None [''HOST=10.0.0.5'', ''INTERNAL_SECRET=''],
        Start_enter 0]
   \<and> exit_status (main [''krunclient'', ''/no/such/root'', ''8080''] [''HOST=10.0.0.5'']
        rt_root_fails) = Some 0"
proof -
  have f: "krun_failed
      (krun_set_root rt_root_fails (krun_create_ctx rt_root_fails) ''/no/such/root'')"
    by (simp add: rt_root_fails_def rt_ok_def krun_failed_def)
  from f set_root_failure_ignored [OF f, of "''krunclient''" "''8080''" "[''HOST=10.0.0.5'']"]
  show ?thesis
    by (simp add: guest_env_eq env_value_def starts_with_def port_mapping_of_def
        port_mapping_size_def snprintf_def rt_root_fails_def rt_ok_def)
qed

text \<open>
  Claim C6, as stated, asks that the exit status shows a failure when
  \<^verbatim>\<open>krun_start_enter\<close> returns. The statement after the call is
  \<^verbatim>\<open>return 0\<close>: in the run below the start call returns \<^verbatim>\<open>-EINVAL\<close> and the
  exit status is 0.
\<close>

theorem start_failure_exit_status_counterexample:
  "krun_start_enter rt_start_fails (krun_create_ctx rt_start_fails) = Some (- 22)
   \<and> krun_failed (- 22)
   \<and> exit_status (main [''krunclient'', ''/var/vm-root'', ''80''] [''HOST=10.0.0.5'']
        rt_start_fails) = Some 0"
  by (simp add: main_exit_status rt_start_fails_def rt_ok_def krun_failed_def)

text \<open>
  Claim C6, amended. On every run with two positional arguments in which
  \<^verbatim>\<open>krun_start_enter\<close> returns, the exit status is 0, whatever value the call
  returned.
\<close>

theorem start_return_exit_zero:
  "krun_start_enter rt (krun_create_ctx rt) = Some r \<Longrightarrow>
     exit_status (main [prog, root_path, local_port] environ rt) = Some 0"
  by (simp add: main_exit_status)

theorem start_return_exit_zero_witness:
  "krun_start_enter rt_start_fails (krun_create_ctx rt_start_fails) = Some (- 22)
   \<and> exit_status (main [''krunclient'', ''/var/vm-root'', ''8080''] [] rt_start_fails) = Some 0"
proof -
  have h: "krun_start_enter rt_start_fails (krun_create_ctx rt_start_fails) = Some (- 22)"
    by (simp add: rt_start_fails_def rt_ok_def)
  from h start_return_exit_zero [OF h, of "''krunclient''" "''/var/vm-root''" "''8080''" "[]"]
  show ?thesis by simp
qed

end
